theory Spec2Isabelle
  imports Main "HOL-Library.Word"
begin

unbundle bit_operations_syntax

section \<open>The digest: lib/md5.js\<close>

text \<open>
  Modelled from the spec: \<open>lib/md5.js\<close>, which \<open>bcrypt-cache.js\<close> and \<open>memory-cache.js\<close>
  require, is not among the sources. The spec's Digest Utility "produces a fixed-length,
  non-cryptographically-sensitive fingerprint of an arbitrary string"; the code calls it
  \<open>md5\<close>, takes a string of length 32 for one of its values, and the tests give its values at
  \<open>'token'\<close> and \<open>'key'\<close>. This section is the MD5 message digest in lower-case hexadecimal:
  the message padded to whole 64-byte blocks, 64 steps per block, 16 bytes out. It
  reproduces both values of the tests (\<open>md5_token\<close> and \<open>md5_key\<close> below).

  Every cache key is \<open>md5(hash)\<close>, and the memory cache stores \<open>md5(token)\<close>.
  Strings are byte strings here (\<open>char\<close> is a byte): a JavaScript string is read in its
  UTF-8 encoding, and its \<open>length\<close> is the number of bytes, which is the JavaScript length
  for ASCII text.
\<close>

type_synonym u8 = "8 word"
type_synonym u32 = "32 word"
type_synonym u64 = "64 word"
type_synonym md5_state = "u32 \<times> u32 \<times> u32 \<times> u32"

definition rotl32 :: "nat \<Rightarrow> u32 \<Rightarrow> u32" where
  "rotl32 n w = push_bit n w OR drop_bit (32 - n) w"

definition md5_K :: "u32 list" where
  "md5_K = [
    0xd76aa478, 0xe8c7b756, 0x242070db, 0xc1bdceee, 0xf57c0faf, 0x4787c62a, 0xa8304613, 0xfd469501,
    0x698098d8, 0x8b44f7af, 0xffff5bb1, 0x895cd7be, 0x6b901122, 0xfd987193, 0xa679438e, 0x49b40821,
    0xf61e2562, 0xc040b340, 0x265e5a51, 0xe9b6c7aa, 0xd62f105d, 0x02441453, 0xd8a1e681, 0xe7d3fbc8,
    0x21e1cde6, 0xc33707d6, 0xf4d50d87, 0x455a14ed, 0xa9e3e905, 0xfcefa3f8, 0x676f02d9, 0x8d2a4c8a,
    0xfffa3942, 0x8771f681, 0x6d9d6122, 0xfde5380c, 0xa4beea44, 0x4bdecfa9, 0xf6bb4b60, 0xbebfbc70,
    0x289b7ec6, 0xeaa127fa, 0xd4ef3085, 0x04881d05, 0xd9d4d039, 0xe6db99e5, 0x1fa27cf8, 0xc4ac5665,
    0xf4292244, 0x432aff97, 0xab9423a7, 0xfc93a039, 0x655b59c3, 0x8f0ccc92, 0xffeff47d, 0x85845dd1,
    0x6fa87e4f, 0xfe2ce6e0, 0xa3014314, 0x4e0811a1, 0xf7537e82, 0xbd3af235, 0x2ad7d2bb, 0xeb86d391]"

definition md5_S :: "nat list" where
  "md5_S = [
    7, 12, 17, 22, 7, 12, 17, 22, 7, 12, 17, 22, 7, 12, 17, 22,
    5, 9, 14, 20, 5, 9, 14, 20, 5, 9, 14, 20, 5, 9, 14, 20,
    4, 11, 16, 23, 4, 11, 16, 23, 4, 11, 16, 23, 4, 11, 16, 23,
    6, 10, 15, 21, 6, 10, 15, 21, 6, 10, 15, 21, 6, 10, 15, 21]"

definition md5_F :: "nat \<Rightarrow> u32 \<Rightarrow> u32 \<Rightarrow> u32 \<Rightarrow> u32" where
  "md5_F i b c d =
     (if i < 16 then (b AND c) OR (NOT b AND d)
      else if i < 32 then (d AND b) OR (NOT d AND c)
      else if i < 48 then b XOR c XOR d
      else c XOR (b OR NOT d))"

definition md5_g :: "nat \<Rightarrow> nat" where
  "md5_g i =
     (if i < 16 then i
      else if i < 32 then (5 * i + 1) mod 16
      else if i < 48 then (3 * i + 5) mod 16
      else (7 * i) mod 16)"

fun md5_step :: "u32 list \<Rightarrow> md5_state \<Rightarrow> nat \<Rightarrow> md5_state" where
  "md5_step m (a, b, c, d) i =
     (d, b + rotl32 (md5_S ! i) (a + md5_F i b c d + md5_K ! i + m ! md5_g i), b, c)"

fun md5_add :: "md5_state \<Rightarrow> md5_state \<Rightarrow> md5_state" where
  "md5_add (a0, b0, c0, d0) (a, b, c, d) = (a0 + a, b0 + b, c0 + c, d0 + d)"

fun md5_words :: "u8 list \<Rightarrow> u32 list" where
  "md5_words (b0 # b1 # b2 # b3 # bs) =
     (ucast b0 OR push_bit 8 (ucast b1) OR push_bit 16 (ucast b2) OR push_bit 24 (ucast b3))
       # md5_words bs"
| "md5_words bs = []"

definition md5_block :: "md5_state \<Rightarrow> u8 list \<Rightarrow> md5_state" where
  "md5_block st block = md5_add st (foldl (md5_step (md5_words block)) st [0..<64])"

primrec md5_blocks :: "nat \<Rightarrow> md5_state \<Rightarrow> u8 list \<Rightarrow> md5_state" where
  "md5_blocks 0 st bs = st"
| "md5_blocks (Suc n) st bs = md5_blocks n (md5_block st (take 64 bs)) (drop 64 bs)"

definition le_bytes :: "nat \<Rightarrow> 'a::len word \<Rightarrow> u8 list" where
  "le_bytes k w = map (\<lambda>j. ucast (drop_bit (8 * j) w)) [0..<k]"

definition md5_pad :: "u8 list \<Rightarrow> u8 list" where
  "md5_pad bs = bs @ [0x80] @ replicate ((119 - length bs mod 64) mod 64) 0
                 @ le_bytes 8 (8 * of_nat (length bs) :: u64)"

definition hex_digit :: "u8 \<Rightarrow> char" where
  "hex_digit n = ''0123456789abcdef'' ! unat n"

definition hex_byte :: "u8 \<Rightarrow> string" where
  "hex_byte b = [hex_digit (drop_bit 4 b), hex_digit (b AND 0x0f)]"

fun md5_digest :: "md5_state \<Rightarrow> u8 list" where
  "md5_digest (a, b, c, d) = concat (map (le_bytes 4) [a, b, c, d])"

definition md5_init :: md5_state where
  "md5_init = (0x67452301, 0xefcdab89, 0x98badcfe, 0x10325476)"

text \<open>
  Modelled from the spec: the function \<open>md5\<close> of \<open>lib/md5.js\<close> (see the head of this
  section), the digest of a string as 32 hexadecimal digits.
\<close>

definition md5 :: "string \<Rightarrow> string" where
  "md5 s = (let bs = md5_pad (map of_char s)
            in concat (map hex_byte (md5_digest (md5_blocks (length bs div 64) md5_init bs))))"

section \<open>JavaScript values, promises and events\<close>

text \<open>
  The values that flow through the cache: what \<open>_get\<close> resolves to (a string,
  \<open>undefined\<close>, Redis' \<open>null\<close>, or whatever a custom backend hands back) and what
  \<open>set\<close> and \<open>remove\<close> resolve to. \<open>truthy\<close> is JavaScript's \<open>ToBoolean\<close> on them
  (\<open>NaN\<close> and objects are not modelled).
\<close>

type_synonym err = string

datatype jsval = JUndefined | JNull | JBool bool | JNum int | JStr string

fun truthy :: "jsval \<Rightarrow> bool" where
  "truthy JUndefined = False"
| "truthy JNull = False"
| "truthy (JBool b) = b"
| "truthy (JNum n) = (n \<noteq> 0)"
| "truthy (JStr s) = (s \<noteq> [])"

text \<open>
  A settled promise: fulfilled with a value or rejected with an error (its message). A
  method that returns a plain value is read through \<open>when(...)\<close>, a promise fulfilled with
  it. Promises that never settle are outside the model.
\<close>

datatype 'a promise = Resolved 'a | Rejected err

text \<open>\<open>self.emit('warn', new Error(msg), err)\<close>: the message and the cause, if one is passed.\<close>

datatype event = Warn string "err option"

text \<open>
  An instance: the fields of the subclass (\<open>'s\<close>) and the events it has emitted so far, in
  order. Listeners are the caller's and are taken not to throw.
\<close>

record 's inst =
  state :: 's
  emitted :: "event list"

definition emit :: "event \<Rightarrow> 's inst \<Rightarrow> 's inst" where
  "emit e st = st\<lparr>emitted := emitted st @ [e]\<rparr>"

section \<open>The slow hash: lib/bcrypt.js\<close>

text \<open>
  The promisified \<open>bcrypt.hash(value, rounds)\<close> and \<open>bcrypt.compare(value, hash)\<close> of the
  bcrypt library, an external capability: a parameter of everything below. The second
  argument of \<open>compare\<close> is whatever the cache hands it.
\<close>

record bcrypt =
  bcrypt_hash :: "string \<Rightarrow> nat \<Rightarrow> string promise"
  bcrypt_compare :: "string \<Rightarrow> jsval \<Rightarrow> bool promise"

section \<open>The caching core: bcrypt-cache.js\<close>

text \<open>
  The five methods a subclass may override. An Isabelle name cannot start with an
  underscore: \<open>_get\<close> is \<open>u_get\<close>, and so on. \<open>_get\<close>, \<open>_set\<close> and \<open>_remove\<close> return "a value
  or Promise" (README) and may change the instance; \<open>_hash\<close> and \<open>_compare\<close> only compute.
\<close>

record 's methods =
  u_get :: "string \<Rightarrow> 's inst \<Rightarrow> jsval promise \<times> 's inst"
  u_set :: "string \<Rightarrow> string \<Rightarrow> 's inst \<Rightarrow> jsval promise \<times> 's inst"
  u_remove :: "string \<Rightarrow> 's inst \<Rightarrow> jsval promise \<times> 's inst"
  u_hash :: "string \<Rightarrow> string promise"
  u_compare :: "jsval \<Rightarrow> string \<Rightarrow> bool promise"

definition BcryptCache_u_get :: "string \<Rightarrow> 's inst \<Rightarrow> jsval promise \<times> 's inst" where
  "BcryptCache_u_get key st = (Rejected ''Not implemented'', st)"

definition BcryptCache_u_set :: "string \<Rightarrow> string \<Rightarrow> 's inst \<Rightarrow> jsval promise \<times> 's inst" where
  "BcryptCache_u_set key v st = (Rejected ''Not implemented'', st)"

definition BcryptCache_u_remove :: "string \<Rightarrow> 's inst \<Rightarrow> jsval promise \<times> 's inst" where
  "BcryptCache_u_remove key st = (Rejected ''Not implemented'', st)"

definition BcryptCache_u_hash :: "bcrypt \<Rightarrow> string \<Rightarrow> string promise" where
  "BcryptCache_u_hash bc v = bcrypt_hash bc v 4"

definition BcryptCache_u_compare :: "bcrypt \<Rightarrow> jsval \<Rightarrow> string \<Rightarrow> bool promise" where
  "BcryptCache_u_compare bc hash v = bcrypt_compare bc v hash"

definition BcryptCache_methods :: "bcrypt \<Rightarrow> 's methods" where
  "BcryptCache_methods bc =
     \<lparr>u_get = BcryptCache_u_get, u_set = BcryptCache_u_set, u_remove = BcryptCache_u_remove,
      u_hash = BcryptCache_u_hash bc, u_compare = BcryptCache_u_compare bc\<rparr>"

text \<open>
  \<open>get\<close>: \<open>when(this._get(md5(hash))).catch(warn)\<close>. The handler returns nothing, so
  after a rejection the promise is fulfilled with \<open>undefined\<close>.
\<close>

definition BcryptCache_get :: "'s methods \<Rightarrow> string \<Rightarrow> 's inst \<Rightarrow> jsval promise \<times> 's inst" where
  "BcryptCache_get M hash st =
     (case u_get M (md5 hash) st of
        (Resolved v, st') \<Rightarrow> (Resolved v, st')
      | (Rejected err, st') \<Rightarrow>
          (Resolved JUndefined, emit (Warn ''Failed to get data from the cache'' (Some err)) st'))"

text \<open>
  \<open>set\<close>: \<open>hash == null\<close> holds of \<open>null\<close> and \<open>undefined\<close>, which \<open>None\<close> stands for.
  Otherwise \<open>_hash(token)\<close>, then \<open>_set(md5(hash), result)\<close>, and one \<open>catch\<close> for both.
\<close>

definition BcryptCache_set ::
  "'s methods \<Rightarrow> string option \<Rightarrow> string option \<Rightarrow> 's inst \<Rightarrow> jsval promise \<times> 's inst" where
  "BcryptCache_set M hash token st =
     (case (hash, token) of
        (Some h, Some t) \<Rightarrow>
          (case u_hash M t of
             Resolved result \<Rightarrow>
               (case u_set M (md5 h) result st of
                  (Resolved v, st') \<Rightarrow> (Resolved v, st')
                | (Rejected err, st') \<Rightarrow>
                    (Resolved JUndefined,
                     emit (Warn ''Failed add hash to the cache'' (Some err)) st'))
           | Rejected err \<Rightarrow>
               (Resolved JUndefined, emit (Warn ''Failed add hash to the cache'' (Some err)) st))
      | _ \<Rightarrow> (Resolved (JBool False), emit (Warn ''Missing parameter(s)'' None) st))"

text \<open>
  \<open>compare\<close>: the lookup; \<open>!result\<close> sets \<open>needsSave\<close> and puts the original hash in the
  place of the cached value; \<open>_compare\<close>; and \<open>tap\<close>, which waits for \<open>set\<close> when the result
  \<open>=== true\<close> and \<open>needsSave\<close>, keeps the result, and passes on a rejection of its handler.
\<close>

definition BcryptCache_compare ::
  "'s methods \<Rightarrow> string \<Rightarrow> string \<Rightarrow> 's inst \<Rightarrow> bool promise \<times> 's inst" where
  "BcryptCache_compare M hash token st =
     (case BcryptCache_get M hash st of
        (Rejected e, st1) \<Rightarrow> (Rejected e, st1)
      | (Resolved result, st1) \<Rightarrow>
          (let needsSave = \<not> truthy result;
               result' = (if needsSave then JStr hash else result)
           in case u_compare M result' token of
                Rejected e \<Rightarrow> (Rejected e, st1)
              | Resolved r \<Rightarrow>
                  if r \<and> needsSave
                  then (case BcryptCache_set M (Some hash) (Some token) st1 of
                          (Resolved x, st2) \<Rightarrow> (Resolved r, st2)
                        | (Rejected e, st2) \<Rightarrow> (Rejected e, st2))
                  else (Resolved r, st1)))"

text \<open>\<open>remove\<close>: \<open>when(this._remove(md5(hash)))\<close>, with no handler behind it.\<close>

definition BcryptCache_remove :: "'s methods \<Rightarrow> string \<Rightarrow> 's inst \<Rightarrow> jsval promise \<times> 's inst" where
  "BcryptCache_remove M hash st = u_remove M (md5 hash) st"

section \<open>The in-process backend: memory-cache.js\<close>

text \<open>
  \<open>this.cache\<close> is an object used as a dictionary from key to \<open>{value, expiration}\<close>, with
  \<open>expiration\<close> in milliseconds; the constructor stores both options in milliseconds.
  The keys the core passes are digests, 32 hexadecimal digits (\<open>md5_hex\<close> below): none is
  a lodash path or a member of \<open>Object.prototype\<close>, and at such keys \<open>_.get\<close> and the
  lookup in the map agree. \<open>Date.now()\<close> is the argument \<open>now\<close>, read once per call. The constructor also starts the timer that calls \<open>_prune\<close> every \<open>pruneTimer\<close>
  milliseconds; a run of it is a call of \<open>MemoryCache_u_prune\<close> between two other calls.
\<close>

record entry =
  val :: string
  expiration :: int

record memory =
  cache :: "string \<rightharpoonup> entry"
  ttl :: int
  pruneTimer :: int

text \<open>
  \<open>_.has(this.cache, key)\<close>. A key that is stored is a key of the object, and lodash
  takes it as it is. A key that is not stored and holds neither \<open>.\<close> nor \<open>[\<close> is no path
  either, and is not there. Any other key lodash cuts into a path and follows into the
  entries: \<open>'a.value'\<close> leads into the entry under \<open>'a'\<close>. How it cuts and follows is
  the library's own code and differs between its versions: it is the parameter
  \<open>has_path\<close>.
\<close>

record lodash =
  has_path :: "(string \<rightharpoonup> entry) \<Rightarrow> string \<Rightarrow> bool"

definition pathlike :: "string \<Rightarrow> bool" where
  "pathlike key = (CHR ''.'' \<in> set key \<or> CHR ''['' \<in> set key)"

definition lodash_has :: "lodash \<Rightarrow> (string \<rightharpoonup> entry) \<Rightarrow> string \<Rightarrow> bool" where
  "lodash_has L c key =
     (if c key \<noteq> None then True
      else if pathlike key then has_path L c key
      else False)"

definition MemoryCache :: "int option \<Rightarrow> int option \<Rightarrow> memory inst" where
  "MemoryCache opt_ttl opt_pruneTimer =
     \<lparr>state = \<lparr>cache = Map.empty,
                ttl = (case opt_ttl of None \<Rightarrow> 600 | Some t \<Rightarrow> t) * 1000,
                pruneTimer = (case opt_pruneTimer of None \<Rightarrow> 60 | Some p \<Rightarrow> p) * 1000\<rparr>,
      emitted = []\<rparr>"

definition set_cache :: "(string \<rightharpoonup> entry) \<Rightarrow> memory inst \<Rightarrow> memory inst" where
  "set_cache c st = st\<lparr>state := (state st)\<lparr>cache := c\<rparr>\<rparr>"

text \<open>
  \<open>_remove\<close>: \<open>delete this.cache[key]; return !_.has(this.cache, key)\<close>. The key itself
  is gone after the \<open>delete\<close>; what \<open>_.has\<close> can still find is a path.
\<close>

definition MemoryCache_u_remove ::
  "lodash \<Rightarrow> string \<Rightarrow> memory inst \<Rightarrow> jsval promise \<times> memory inst" where
  "MemoryCache_u_remove L key st =
     (let c = (cache (state st))(key := None)
      in (Resolved (JBool (\<not> lodash_has L c key)), set_cache c st))"

text \<open>
  The public \<open>remove\<close> as a memory cache inherits it: \<open>this._remove(md5(hash))\<close>.
  (\<open>MemoryCache_remove_inherited\<close> below shows it is \<open>BcryptCache_remove\<close> at this class.)
\<close>

definition MemoryCache_remove ::
  "lodash \<Rightarrow> string \<Rightarrow> memory inst \<Rightarrow> jsval promise \<times> memory inst" where
  "MemoryCache_remove L hash st = MemoryCache_u_remove L (md5 hash) st"

text \<open>
  \<open>_prune\<close>: for each key whose entry has \<open>expiration < now\<close>, \<open>this._remove(key)\<close>. The
  test on one key does not depend on the removal of another, so the loop is a filter.
\<close>

definition MemoryCache_u_prune :: "int \<Rightarrow> memory inst \<Rightarrow> memory inst" where
  "MemoryCache_u_prune now st =
     set_cache (\<lambda>key. case cache (state st) key of
                         None \<Rightarrow> None
                       | Some e \<Rightarrow> if expiration e < now then None else Some e) st"

text \<open>
  \<open>_get\<close>: an entry object is truthy. Expired: \<open>this.remove(key)\<close>, the public method, and
  \<open>undefined\<close>. Otherwise the expiration is reset and the stored value returned.
\<close>

definition MemoryCache_u_get ::
  "lodash \<Rightarrow> int \<Rightarrow> string \<Rightarrow> memory inst \<Rightarrow> jsval promise \<times> memory inst" where
  "MemoryCache_u_get L now key st =
     (case cache (state st) key of
        None \<Rightarrow> (Resolved JUndefined, st)
      | Some e \<Rightarrow>
          if expiration e < now
          then (Resolved JUndefined, snd (MemoryCache_remove L key st))
          else (Resolved (JStr (val e)),
                set_cache ((cache (state st))(key \<mapsto> e\<lparr>expiration := now + ttl (state st)\<rparr>)) st))"

text \<open>
  \<open>_set\<close>: the entry is overwritten; \<open>_.has(this.cache, key)\<close> is the result, at a key that
  is now stored.
\<close>

definition MemoryCache_u_set ::
  "int \<Rightarrow> string \<Rightarrow> string \<Rightarrow> memory inst \<Rightarrow> jsval promise \<times> memory inst" where
  "MemoryCache_u_set now key v st =
     (let c = (cache (state st))(key \<mapsto> \<lparr>val = v, expiration = now + ttl (state st)\<rparr>)
      in (Resolved (JBool (c key \<noteq> None)), set_cache c st))"

definition MemoryCache_u_hash :: "string \<Rightarrow> string promise" where
  "MemoryCache_u_hash v = Resolved (md5 v)"

text \<open>
  \<open>_compare\<close>: \<open>hash.length === 32\<close> selects the digest comparison, anything else the
  default. \<open>.length\<close> of a number or a boolean is \<open>undefined\<close>; of \<open>undefined\<close> or \<open>null\<close> it
  throws, inside a \<open>then\<close>, which rejects.
\<close>

definition MemoryCache_u_compare :: "bcrypt \<Rightarrow> jsval \<Rightarrow> string \<Rightarrow> bool promise" where
  "MemoryCache_u_compare bc hash v =
     (case hash of
        JStr h \<Rightarrow> if length h = 32 then Resolved (md5 v = h) else BcryptCache_u_compare bc hash v
      | JUndefined \<Rightarrow> Rejected ''TypeError''
      | JNull \<Rightarrow> Rejected ''TypeError''
      | _ \<Rightarrow> BcryptCache_u_compare bc hash v)"

definition MemoryCache_methods :: "lodash \<Rightarrow> bcrypt \<Rightarrow> int \<Rightarrow> memory methods" where
  "MemoryCache_methods L bc now =
     \<lparr>u_get = MemoryCache_u_get L now, u_set = MemoryCache_u_set now,
      u_remove = MemoryCache_u_remove L, u_hash = MemoryCache_u_hash,
      u_compare = MemoryCache_u_compare bc\<rparr>"

section \<open>The networked backend: redis-cache.js\<close>

text \<open>
  The Redis client is the caller's: its four promisified commands are a parameter, each
  a step on the client's own state \<open>'r\<close> that is fulfilled with the reply or rejected.
  \<open>.timeout(250)\<close> turns a command that takes too long into a rejection, so a timeout is one
  of the rejections of \<open>getAsync\<close> and \<open>setexAsync\<close> here.
\<close>

record 'r client =
  getAsync :: "string \<Rightarrow> 'r \<Rightarrow> jsval promise \<times> 'r"
  setexAsync :: "string \<Rightarrow> int \<Rightarrow> string \<Rightarrow> 'r \<Rightarrow> jsval promise \<times> 'r"
  delAsync :: "string \<Rightarrow> 'r \<Rightarrow> jsval promise \<times> 'r"
  expireAsync :: "string \<Rightarrow> int \<Rightarrow> 'r \<Rightarrow> jsval promise \<times> 'r"

record 'r redis =
  conn :: 'r
  rttl :: int
  prefix :: string

definition RedisCache :: "'r \<Rightarrow> int option \<Rightarrow> string option \<Rightarrow> 'r redis inst" where
  "RedisCache r opt_ttl opt_prefix =
     \<lparr>state = \<lparr>conn = r,
                rttl = (case opt_ttl of None \<Rightarrow> 600 | Some t \<Rightarrow> t),
                prefix = (case opt_prefix of None \<Rightarrow> ''bcrypt-cache:'' | Some p \<Rightarrow> p)\<rparr>,
      emitted = []\<rparr>"

definition set_conn :: "'r \<Rightarrow> 'r redis inst \<Rightarrow> 'r redis inst" where
  "set_conn r st = st\<lparr>state := (state st)\<lparr>conn := r\<rparr>\<rparr>"

text \<open>
  \<open>_get\<close>: the read, and in \<open>tap\<close>, for a truthy reply, \<open>expireAsync\<close> with its own \<open>catch\<close>;
  the reply of the read is the result either way.
\<close>

definition RedisCache_u_get ::
  "'r client \<Rightarrow> string \<Rightarrow> 'r redis inst \<Rightarrow> jsval promise \<times> 'r redis inst" where
  "RedisCache_u_get C key st =
     (case getAsync C (prefix (state st) @ key) (conn (state st)) of
        (Rejected e, r1) \<Rightarrow> (Rejected e, set_conn r1 st)
      | (Resolved result, r1) \<Rightarrow>
          if truthy result
          then (case expireAsync C (prefix (state st) @ key) (rttl (state st)) r1 of
                  (Resolved x, r2) \<Rightarrow> (Resolved result, set_conn r2 st)
                | (Rejected err, r2) \<Rightarrow>
                    (Resolved result,
                     emit (Warn ''Error setting expiration'' (Some err)) (set_conn r2 st)))
          else (Resolved result, set_conn r1 st))"

text \<open>\<open>_set\<close>: \<open>setexAsync(prefix + key, ttl, value)\<close>, then \<open>Boolean(result)\<close>.\<close>

definition RedisCache_u_set ::
  "'r client \<Rightarrow> string \<Rightarrow> string \<Rightarrow> 'r redis inst \<Rightarrow> jsval promise \<times> 'r redis inst" where
  "RedisCache_u_set C key v st =
     (case setexAsync C (prefix (state st) @ key) (rttl (state st)) v (conn (state st)) of
        (Resolved result, r1) \<Rightarrow> (Resolved (JBool (truthy result)), set_conn r1 st)
      | (Rejected e, r1) \<Rightarrow> (Rejected e, set_conn r1 st))"

text \<open>\<open>_remove\<close>: \<open>delAsync(prefix + key).yield(when(true))\<close>; \<open>yield\<close> is a \<open>then\<close>.\<close>

definition RedisCache_u_remove ::
  "'r client \<Rightarrow> string \<Rightarrow> 'r redis inst \<Rightarrow> jsval promise \<times> 'r redis inst" where
  "RedisCache_u_remove C key st =
     (case delAsync C (prefix (state st) @ key) (conn (state st)) of
        (Resolved result, r1) \<Rightarrow> (Resolved (JBool True), set_conn r1 st)
      | (Rejected e, r1) \<Rightarrow> (Rejected e, set_conn r1 st))"

definition RedisCache_methods :: "'r client \<Rightarrow> bcrypt \<Rightarrow> 'r redis methods" where
  "RedisCache_methods C bc =
     \<lparr>u_get = RedisCache_u_get C, u_set = RedisCache_u_set C, u_remove = RedisCache_u_remove C,
      u_hash = BcryptCache_u_hash bc, u_compare = BcryptCache_u_compare bc\<rparr>"

section \<open>Stand-ins for bcrypt, the Redis client and lodash\<close>

text \<open>
  The theorems below hold for every \<open>bcrypt\<close>, every client and every lodash. To run the
  code at a concrete input one of each is needed. \<open>stub_bcrypt known\<close> accepts a value for the hashes
  it made of it and for the pairs listed in \<open>known\<close>; the test suite takes \<open>tokenHash\<close> to
  be a bcrypt hash of \<open>token\<close>.
\<close>

abbreviation token :: string where
  "token \<equiv> ''token''"

abbreviation tokenHash :: string where
  "tokenHash \<equiv> ''$2a$10$o4ezyhBv1b2tOQmHH1kiO.vdeIPLQQcY.1aCtH9VODTK.1/CpyRPa''"

definition stub_bcrypt :: "(string \<times> string) list \<Rightarrow> bcrypt" where
  "stub_bcrypt known =
     \<lparr>bcrypt_hash = (\<lambda>v rounds. Resolved (''$2a$04$'' @ v)),
      bcrypt_compare = (\<lambda>v h. Resolved (h = JStr (''$2a$04$'' @ v) \<or> h \<in> JStr ` set (map snd (filter (\<lambda>p. fst p = v) known))))\<rparr>"

text \<open>
  \<open>fake_redis broken\<close> keeps, for each key, its value and the seconds to live it was last
  given; time does not pass in it. A command listed in \<open>broken\<close> is rejected and changes
  nothing. A missing key reads as \<open>null\<close>.
\<close>

datatype command = GET | SETEX | DEL | EXPIRE

type_synonym fake_store = "string \<rightharpoonup> string \<times> int"

definition fake_redis :: "command list \<Rightarrow> fake_store client" where
  "fake_redis broken =
     \<lparr>getAsync = (\<lambda>k r.
        if GET \<in> set broken then (Rejected ''Connection closed'', r)
        else (case r k of None \<Rightarrow> (Resolved JNull, r) | Some (v, t) \<Rightarrow> (Resolved (JStr v), r))),
      setexAsync = (\<lambda>k t v r.
        if SETEX \<in> set broken then (Rejected ''Connection closed'', r)
        else (Resolved (JStr ''OK''), r(k \<mapsto> (v, t)))),
      delAsync = (\<lambda>k r.
        if DEL \<in> set broken then (Rejected ''Connection closed'', r)
        else (Resolved (JNum (if r k = None then 0 else 1)), r(k := None))),
      expireAsync = (\<lambda>k t r.
        if EXPIRE \<in> set broken then (Rejected ''Connection closed'', r)
        else (case r k of
                None \<Rightarrow> (Resolved (JNum 0), r)
              | Some (v, t0) \<Rightarrow> (Resolved (JNum 1), r(k \<mapsto> (v, t)))))\<rparr>"

text \<open>
  \<open>two_names\<close> is a lodash for paths of two names: \<open>k.value\<close> and \<open>k.expiration\<close> lead into
  the entry stored under \<open>k\<close>, as they do in every lodash. It finds no other path.
\<close>

definition two_names :: lodash where
  "two_names =
     \<lparr>has_path = (\<lambda>c key.
        case c (takeWhile (\<lambda>x. x \<noteq> CHR ''.'') key) of
          None \<Rightarrow> False
        | Some e \<Rightarrow> dropWhile (\<lambda>x. x \<noteq> CHR ''.'') key \<in> {''.value'', ''.expiration''})\<rparr>"

section \<open>The digest at the values of the test suite\<close>

text \<open>
  The tests expect \<open>'94a08da1fecbb6e8b46990538c7b50b2'\<close> in the memory cache for \<open>'token'\<close>
  and the key \<open>'3c6e0b8a9c15224a8228b9a98ca1531d'\<close> for the hash \<open>'key'\<close>.
\<close>

lemma md5_token: "md5 ''token'' = ''94a08da1fecbb6e8b46990538c7b50b2''"
  by code_simp

lemma md5_key: "md5 ''key'' = ''3c6e0b8a9c15224a8228b9a98ca1531d''"
  by code_simp

lemma md5_md5_key: "md5 ''3c6e0b8a9c15224a8228b9a98ca1531d'' = ''56f3db44e25e3057caa2b78751fa212c''"
  by code_simp

lemma length_hex: "length (concat (map hex_byte bs)) = 2 * length bs"
  by (induction bs) (simp_all add: hex_byte_def)

lemma length_md5_digest: "length (md5_digest st) = 16"
  by (cases st) (simp add: le_bytes_def)

lemma length_md5: "length (md5 s) = 32"
  by (simp add: md5_def Let_def length_hex length_md5_digest)

text \<open>A digest differs from every string that is not 32 characters long.\<close>

lemma md5_differs: "length h \<noteq> 32 \<Longrightarrow> md5 h \<noteq> h"
  using length_md5 [of h] by auto

section \<open>The key is a digest\<close>

text \<open>
  The core hands \<open>md5(hash)\<close> to the backend, never the hash (see \<open>BcryptCache_get\<close>,
  \<open>BcryptCache_set\<close> and \<open>BcryptCache_remove\<close>). A digest is 32 characters out of
  \<open>0123456789abcdef\<close>, so it differs from every hash of another length and from every
  hash with another character in it: from every bcrypt hash, which has 60 characters and
  starts with \<open>$\<close>, and from every hash that the tests use. Whether a string of 32
  hexadecimal digits is its own digest is not decided here. No digest is a path for lodash.
\<close>

lemma hex_digit_hex: "unat n < 16 \<Longrightarrow> hex_digit n \<in> set ''0123456789abcdef''"
  unfolding hex_digit_def by (rule nth_mem) simp

lemma hi_nibble: "unat (drop_bit 4 (b :: u8)) < 16"
proof -
  have "unat b < 256" using unsigned_less [of b] by simp
  then have "unat b div 16 < 16" by simp
  then show ?thesis by (simp add: unat_drop_bit_eq drop_bit_eq_div unat_div)
qed

lemma lo_nibble: "unat ((b :: u8) AND 0x0f) < 16"
proof -
  have "b AND 0x0f \<le> 0x0f"
    by (rule word_and_le1)
  then have "unat (b AND 0x0f) \<le> 15"
    by (simp add: word_le_nat_alt)
  then show ?thesis
    by simp
qed

lemma hex_byte_hex: "set (hex_byte b) \<subseteq> set ''0123456789abcdef''"
  using hex_digit_hex [OF hi_nibble [of b]] hex_digit_hex [OF lo_nibble [of b]]
  by (simp add: hex_byte_def)

lemma hex_bytes_hex: "set (concat (map hex_byte bs)) \<subseteq> set ''0123456789abcdef''"
proof (induction bs)
  case Nil
  show ?case by simp
next
  case (Cons b bs)
  have "set (concat (map hex_byte (b # bs))) = set (hex_byte b) \<union> set (concat (map hex_byte bs))"
    by simp
  with Cons hex_byte_hex [of b] show ?case by blast
qed

lemma md5_hex: "set (md5 s) \<subseteq> set ''0123456789abcdef''"
  unfolding md5_def Let_def by (rule hex_bytes_hex)

lemma md5_differs_hex:
  assumes "c \<in> set h" and "c \<notin> set ''0123456789abcdef''"
  shows "md5 h \<noteq> h"
proof
  assume eq: "md5 h = h"
  have "set (md5 h) \<subseteq> set ''0123456789abcdef''"
    by (rule md5_hex)
  then have "set h \<subseteq> set ''0123456789abcdef''"
    unfolding eq .
  then have "c \<in> set ''0123456789abcdef''"
    using assms(1) by (rule subsetD)
  with assms(2) show False
    by (rule notE)
qed

lemma md5_tokenHash_differs: "md5 tokenHash \<noteq> tokenHash"
  by (rule md5_differs) simp

lemma md5_not_pathlike: "\<not> pathlike (md5 s)"
proof -
  have "CHR ''.'' \<notin> set ''0123456789abcdef''" and "CHR ''['' \<notin> set ''0123456789abcdef''"
    by simp_all
  with md5_hex [of s] show ?thesis
    unfolding pathlike_def by blast
qed

text \<open>At a digest \<open>_remove\<close> returns \<open>true\<close>, whatever lodash does with paths.\<close>

lemma memory_remove_digest:
  "MemoryCache_u_remove L (md5 h) sm
     = (Resolved (JBool True), set_cache ((cache (state sm))(md5 h := None)) sm)"
  by (simp add: MemoryCache_u_remove_def lodash_has_def md5_not_pathlike)

section \<open>Falsy values\<close>

lemma falsy_values:
  "(\<not> truthy v) = (v = JUndefined \<or> v = JNull \<or> v = JBool False \<or> v = JNum 0 \<or> v = JStr [])"
  by (cases v) simp_all

section \<open>What the core does on a miss\<close>

lemmas core_defs = BcryptCache_get_def BcryptCache_set_def BcryptCache_compare_def
  BcryptCache_remove_def BcryptCache_u_hash_def BcryptCache_u_compare_def emit_def

lemmas memory_defs = MemoryCache_methods_def MemoryCache_u_get_def MemoryCache_u_set_def
  MemoryCache_u_remove_def MemoryCache_remove_def MemoryCache_u_hash_def
  MemoryCache_u_compare_def MemoryCache_u_prune_def set_cache_def MemoryCache_def
  lodash_has_def pathlike_def

lemmas redis_defs = RedisCache_methods_def RedisCache_u_get_def RedisCache_u_set_def
  RedisCache_u_remove_def set_conn_def RedisCache_def

lemma BcryptCache_get_resolves: "\<exists>v. fst (BcryptCache_get M h st) = Resolved v"
  by (simp add: BcryptCache_get_def split: prod.splits promise.splits)

lemma BcryptCache_set_resolves: "\<exists>v. fst (BcryptCache_set M ho to st) = Resolved v"
  by (simp add: BcryptCache_set_def split: prod.splits promise.splits option.splits)

lemma get_cases:
  obtains v st1 where "BcryptCache_get M h st = (Resolved v, st1)"
  using BcryptCache_get_resolves [of M h st] by (cases "BcryptCache_get M h st") auto

lemma set_cases:
  obtains x st2 where "BcryptCache_set M ho to st = (Resolved x, st2)"
  using BcryptCache_set_resolves [of M ho to st] by (cases "BcryptCache_set M ho to st") auto

text \<open>The \<open>this.remove(key)\<close> of the memory cache's \<open>_get\<close> is the inherited method.\<close>

lemma MemoryCache_remove_inherited:
  "BcryptCache_remove (MemoryCache_methods L bc now) = MemoryCache_remove L"
  by (rule ext)+ (simp add: BcryptCache_remove_def MemoryCache_methods_def MemoryCache_remove_def)

text \<open>
  When \<open>get\<close> has no truthy value, \<open>compare\<close> is \<open>_compare\<close> on the original hash, and
  \<open>set\<close> after it when the result is \<open>true\<close>.
\<close>

lemma compare_on_miss:
  assumes "BcryptCache_get M h st = (Resolved v, st1)" and "\<not> truthy v"
  shows "BcryptCache_compare M h t st =
           (case u_compare M (JStr h) t of
              Rejected e \<Rightarrow> (Rejected e, st1)
            | Resolved r \<Rightarrow>
                if r then (Resolved True, snd (BcryptCache_set M (Some h) (Some t) st1))
                else (Resolved False, st1))"
proof -
  obtain x st2 where s: "BcryptCache_set M (Some h) (Some t) st1 = (Resolved x, st2)"
    by (rule set_cases)
  show ?thesis
    using assms by (simp add: BcryptCache_compare_def s split: promise.splits)
qed

text \<open>The promise of \<open>compare\<close> settles as its one call of \<open>_compare\<close> does.\<close>

lemma compare_outcome:
  assumes "BcryptCache_get M h st = (Resolved v, st1)"
  shows "fst (BcryptCache_compare M h t st) = u_compare M (if truthy v then v else JStr h) t"
proof -
  obtain x st2 where s: "BcryptCache_set M (Some h) (Some t) st1 = (Resolved x, st2)"
    by (rule set_cases)
  show ?thesis
    using assms by (simp add: BcryptCache_compare_def s Let_def split: promise.splits)
qed

lemma memory_compare_not_digest_length:
  "length h \<noteq> 32 \<Longrightarrow>
   u_compare (MemoryCache_methods L bc now) (JStr h) t = bcrypt_compare bc t (JStr h)"
  by (simp add: MemoryCache_methods_def MemoryCache_u_compare_def BcryptCache_u_compare_def)

lemma memory_compare_digest_length:
  "length h = 32 \<Longrightarrow> u_compare (MemoryCache_methods L bc now) (JStr h) t = Resolved (md5 t = h)"
  by (simp add: MemoryCache_methods_def MemoryCache_u_compare_def)

lemma redis_compare: "u_compare (RedisCache_methods C bc) x t = bcrypt_compare bc t x"
  by (simp add: RedisCache_methods_def BcryptCache_u_compare_def)

lemma memory_get_absent:
  "cache (state sm) (md5 h) = None \<Longrightarrow>
   BcryptCache_get (MemoryCache_methods L bc now) h sm = (Resolved JUndefined, sm)"
  by (simp add: BcryptCache_get_def MemoryCache_methods_def MemoryCache_u_get_def)

section \<open>A comparison that fails leaves the cache alone\<close>

lemma md5_wrongtoken: "md5 ''wrongtoken'' = ''4dc878d5d39dd2153350d4e127580166''"
  by code_simp

text \<open>When \<open>get\<close> has a truthy value, \<open>compare\<close> is \<open>_compare\<close> on it, and nothing else.\<close>

lemma compare_on_hit:
  assumes "BcryptCache_get M h st = (Resolved v, st1)" and "truthy v"
  shows "BcryptCache_compare M h t st = (u_compare M v t, st1)"
  using assms by (simp add: BcryptCache_compare_def split: promise.splits)

text \<open>
  Claim C1, as amended. Let bcrypt's comparison of \<open>t\<close> against \<open>h\<close> be \<open>false\<close>. With the
  Redis backend \<open>compare(h, t)\<close> leaves the instance as its lookup left it, so \<open>_set\<close> is not
  called and no entry is written; its result is \<open>false\<close> when the lookup finds no cached
  value (a falsy one: a miss, or a lookup that failed), and the comparison of \<open>t\<close> with the
  cached value when it finds one. With the memory backend the same holds whenever the
  lookup finds a value or \<open>h\<close> is not the digest of \<open>t\<close>, the comparison with a cached value
  being that of \<open>_compare\<close>; and if \<open>h\<close> is not the digest of \<open>t\<close> and has no entry, the
  instance is unchanged and a later \<open>get(h)\<close> is \<open>undefined\<close>.
\<close>

theorem failed_comparison_writes_nothing:
  assumes "bcrypt_compare bc t (JStr h) = Resolved False"
  shows "(\<forall>v st1. BcryptCache_get (RedisCache_methods C bc) h sr = (Resolved v, st1) \<longrightarrow>
            BcryptCache_compare (RedisCache_methods C bc) h t sr
              = (if truthy v then bcrypt_compare bc t v else Resolved False, st1))
       \<and> (\<forall>v st1. BcryptCache_get (MemoryCache_methods L bc now) h sm = (Resolved v, st1) \<longrightarrow>
            (truthy v \<or> h \<noteq> md5 t) \<longrightarrow>
            BcryptCache_compare (MemoryCache_methods L bc now) h t sm
              = (if truthy v then MemoryCache_u_compare bc v t else Resolved False, st1))
       \<and> (h \<noteq> md5 t \<longrightarrow> cache (state sm) (md5 h) = None \<longrightarrow>
            BcryptCache_compare (MemoryCache_methods L bc now) h t sm = (Resolved False, sm)
            \<and> fst (BcryptCache_get (MemoryCache_methods L bc now') h
                     (snd (BcryptCache_compare (MemoryCache_methods L bc now) h t sm)))
                = Resolved JUndefined)"
proof (intro conjI allI impI)
  fix v st1
  assume g: "BcryptCache_get (RedisCache_methods C bc) h sr = (Resolved v, st1)"
  show "BcryptCache_compare (RedisCache_methods C bc) h t sr
          = (if truthy v then bcrypt_compare bc t v else Resolved False, st1)"
  proof (cases "truthy v")
    case True
    with compare_on_hit [OF g True, of t] show ?thesis
      by (simp add: redis_compare)
  next
    case False
    with compare_on_miss [OF g False, of t] assms show ?thesis
      by (simp add: redis_compare)
  qed
next
  have u: "u_compare (MemoryCache_methods L bc now) (JStr h) t = Resolved False"
    if "h \<noteq> md5 t" for now
  proof (cases "length h = 32")
    case True
    with that show ?thesis
      by (auto simp add: memory_compare_digest_length)
  next
    case False
    with assms show ?thesis
      by (simp add: memory_compare_not_digest_length)
  qed
  {
    fix v st1
    assume g: "BcryptCache_get (MemoryCache_methods L bc now) h sm = (Resolved v, st1)"
      and d: "truthy v \<or> h \<noteq> md5 t"
    show "BcryptCache_compare (MemoryCache_methods L bc now) h t sm
            = (if truthy v then MemoryCache_u_compare bc v t else Resolved False, st1)"
    proof (cases "truthy v")
      case True
      with compare_on_hit [OF g True, of t] show ?thesis
        by (simp add: MemoryCache_methods_def)
    next
      case False
      with d have "h \<noteq> md5 t" by simp
      with compare_on_miss [OF g False, of t] False show ?thesis
        by (simp add: u)
    qed
  }
  assume l: "h \<noteq> md5 t" and n: "cache (state sm) (md5 h) = None"
  have c: "BcryptCache_compare (MemoryCache_methods L bc now) h t sm = (Resolved False, sm)"
    using compare_on_miss [of "MemoryCache_methods L bc now" h sm JUndefined sm t]
      memory_get_absent [OF n, where L = L and bc = bc and now = now]
    by (simp add: u [OF l])
  show "BcryptCache_compare (MemoryCache_methods L bc now) h t sm = (Resolved False, sm)"
    by (rule c)
  show "fst (BcryptCache_get (MemoryCache_methods L bc now') h
               (snd (BcryptCache_compare (MemoryCache_methods L bc now) h t sm))) = Resolved JUndefined"
    using memory_get_absent [OF n, where L = L and bc = bc and now = now'] by (simp add: c)
qed

text \<open>
  \<open>compare(tokenHash, 'wrongtoken')\<close>, the scenario of the spec: on an empty Redis cache;
  on a memory cache that holds the digest of \<open>'token'\<close> for \<open>tokenHash\<close>, where the lookup
  finds it, resets its expiration, and \<open>_compare\<close> says \<open>false\<close>; and on an empty memory
  cache.
\<close>

theorem failed_comparison_writes_nothing_witness:
  "bcrypt_compare (stub_bcrypt [(token, tokenHash)]) ''wrongtoken'' (JStr tokenHash) = Resolved False
   \<and> BcryptCache_get (RedisCache_methods (fake_redis []) (stub_bcrypt [(token, tokenHash)])) tokenHash
         (RedisCache Map.empty None None)
       = (Resolved JNull, RedisCache Map.empty None None)
   \<and> BcryptCache_compare (RedisCache_methods (fake_redis []) (stub_bcrypt [(token, tokenHash)]))
         tokenHash ''wrongtoken'' (RedisCache Map.empty None None)
       = (Resolved False, RedisCache Map.empty None None)
   \<and> BcryptCache_get (MemoryCache_methods two_names (stub_bcrypt [(token, tokenHash)]) 500) tokenHash
         \<lparr>state = \<lparr>cache = [md5 tokenHash \<mapsto> \<lparr>val = ''94a08da1fecbb6e8b46990538c7b50b2'',
                                                expiration = 1000\<rparr>],
                    ttl = 1000, pruneTimer = 10000\<rparr>, emitted = []\<rparr>
       = (Resolved (JStr ''94a08da1fecbb6e8b46990538c7b50b2''),
          \<lparr>state = \<lparr>cache = [md5 tokenHash \<mapsto> \<lparr>val = ''94a08da1fecbb6e8b46990538c7b50b2'',
                                                 expiration = 1500\<rparr>],
                     ttl = 1000, pruneTimer = 10000\<rparr>, emitted = []\<rparr>)
   \<and> truthy (JStr ''94a08da1fecbb6e8b46990538c7b50b2'')
   \<and> BcryptCache_compare (MemoryCache_methods two_names (stub_bcrypt [(token, tokenHash)]) 500)
         tokenHash ''wrongtoken''
         \<lparr>state = \<lparr>cache = [md5 tokenHash \<mapsto> \<lparr>val = ''94a08da1fecbb6e8b46990538c7b50b2'',
                                                expiration = 1000\<rparr>],
                    ttl = 1000, pruneTimer = 10000\<rparr>, emitted = []\<rparr>
       = (Resolved False,
          \<lparr>state = \<lparr>cache = [md5 tokenHash \<mapsto> \<lparr>val = ''94a08da1fecbb6e8b46990538c7b50b2'',
                                                 expiration = 1500\<rparr>],
                     ttl = 1000, pruneTimer = 10000\<rparr>, emitted = []\<rparr>)
   \<and> tokenHash \<noteq> md5 ''wrongtoken''
   \<and> cache (state (MemoryCache (Some 1) (Some 10))) (md5 tokenHash) = None
   \<and> BcryptCache_compare (MemoryCache_methods two_names (stub_bcrypt [(token, tokenHash)]) 0)
         tokenHash ''wrongtoken'' (MemoryCache (Some 1) (Some 10))
       = (Resolved False, MemoryCache (Some 1) (Some 10))
   \<and> fst (BcryptCache_get (MemoryCache_methods two_names (stub_bcrypt [(token, tokenHash)]) 500)
            tokenHash
            (snd (BcryptCache_compare (MemoryCache_methods two_names (stub_bcrypt [(token, tokenHash)]) 0)
                    tokenHash ''wrongtoken'' (MemoryCache (Some 1) (Some 10)))))
       = Resolved JUndefined"
proof -
  let ?bc = "stub_bcrypt [(token, tokenHash)]"
  let ?sr = "RedisCache (Map.empty :: fake_store) None None"
  let ?sm = "MemoryCache (Some 1) (Some 10)"
  let ?v = "JStr ''94a08da1fecbb6e8b46990538c7b50b2''"
  let ?sh = "\<lparr>state = \<lparr>cache = [md5 tokenHash \<mapsto> \<lparr>val = ''94a08da1fecbb6e8b46990538c7b50b2'',
                                                expiration = 1000\<rparr>],
                    ttl = 1000, pruneTimer = 10000\<rparr>, emitted = []\<rparr>"
  let ?sh' = "\<lparr>state = \<lparr>cache = [md5 tokenHash \<mapsto> \<lparr>val = ''94a08da1fecbb6e8b46990538c7b50b2'',
                                                 expiration = 1500\<rparr>],
                     ttl = 1000, pruneTimer = 10000\<rparr>, emitted = []\<rparr>"
  have b: "bcrypt_compare ?bc ''wrongtoken'' (JStr tokenHash) = Resolved False"
    by (simp add: stub_bcrypt_def)
  have gr: "BcryptCache_get (RedisCache_methods (fake_redis []) ?bc) tokenHash ?sr
              = (Resolved JNull, ?sr)"
    by (simp add: core_defs redis_defs fake_redis_def)
  have gh: "BcryptCache_get (MemoryCache_methods two_names ?bc 500) tokenHash ?sh = (Resolved ?v, ?sh')"
    by (simp add: core_defs memory_defs)
  have tv: "truthy ?v" by simp
  have l: "tokenHash \<noteq> md5 ''wrongtoken''" by (simp add: md5_wrongtoken)
  have n: "cache (state ?sm) (md5 tokenHash) = None" by (simp add: MemoryCache_def)
  note th1 = failed_comparison_writes_nothing [OF b, where C = "fake_redis []" and sr = ?sr
      and L = two_names and now = 500 and sm = ?sh and now' = 500]
  note th2 = failed_comparison_writes_nothing [OF b, where C = "fake_redis []" and sr = ?sr
      and L = two_names and now = 0 and sm = ?sm and now' = 500]
  from th1 gr have i1: "BcryptCache_compare (RedisCache_methods (fake_redis []) ?bc)
         tokenHash ''wrongtoken'' ?sr
       = (if truthy JNull then bcrypt_compare ?bc ''wrongtoken'' JNull else Resolved False, ?sr)"
    by blast
  from th1 gh tv have i2: "BcryptCache_compare (MemoryCache_methods two_names ?bc 500)
         tokenHash ''wrongtoken'' ?sh
       = (if truthy ?v then MemoryCache_u_compare ?bc ?v ''wrongtoken'' else Resolved False, ?sh')"
    by blast
  from th2 l n have i3: "BcryptCache_compare (MemoryCache_methods two_names ?bc 0)
         tokenHash ''wrongtoken'' ?sm = (Resolved False, ?sm)
      \<and> fst (BcryptCache_get (MemoryCache_methods two_names ?bc 500) tokenHash
            (snd (BcryptCache_compare (MemoryCache_methods two_names ?bc 0)
                    tokenHash ''wrongtoken'' ?sm)))
        = Resolved JUndefined"
    by blast
  have c1: "BcryptCache_compare (RedisCache_methods (fake_redis []) ?bc)
         tokenHash ''wrongtoken'' ?sr = (Resolved False, ?sr)"
    using i1 by simp
  have c2: "BcryptCache_compare (MemoryCache_methods two_names ?bc 500)
         tokenHash ''wrongtoken'' ?sh = (Resolved False, ?sh')"
    using i2 by (simp add: MemoryCache_u_compare_def md5_wrongtoken)
  show ?thesis
    by (intro conjI b gr c1 gh tv c2 l n i3 [THEN conjunct1] i3 [THEN conjunct2])
qed

text \<open>
  Claim C1 as stated fails in two ways. In the memory backend, for a hash of 32 characters
  with no entry in the cache: the hash is the digest of \<open>'token'\<close>, bcrypt rejects \<open>'token'\<close>
  for it, yet \<open>compare\<close> is \<open>true\<close> and an entry is written under the key of the hash. And in
  both backends on a hit: after \<open>set(tokenHash, 'wrongtoken')\<close>, \<open>compare(tokenHash,
  'wrongtoken')\<close> is \<open>true\<close> although bcrypt rejects \<open>'wrongtoken'\<close> for \<open>tokenHash\<close>.
\<close>

theorem failed_comparison_writes_entry_counterexample:
  "bcrypt_compare (stub_bcrypt [(token, tokenHash)]) token (JStr ''94a08da1fecbb6e8b46990538c7b50b2'')
     = Resolved False
   \<and> cache (state (MemoryCache (Some 1) (Some 10))) (md5 ''94a08da1fecbb6e8b46990538c7b50b2'') = None
   \<and> BcryptCache_compare (MemoryCache_methods two_names (stub_bcrypt [(token, tokenHash)]) 0)
         ''94a08da1fecbb6e8b46990538c7b50b2'' token (MemoryCache (Some 1) (Some 10))
       = (Resolved True,
          \<lparr>state = \<lparr>cache = [md5 ''94a08da1fecbb6e8b46990538c7b50b2''
                                \<mapsto> \<lparr>val = ''94a08da1fecbb6e8b46990538c7b50b2'', expiration = 1000\<rparr>],
                     ttl = 1000, pruneTimer = 10000\<rparr>,
           emitted = []\<rparr>)
   \<and> bcrypt_compare (stub_bcrypt [(token, tokenHash)]) ''wrongtoken'' (JStr tokenHash) = Resolved False
   \<and> fst (BcryptCache_compare (MemoryCache_methods two_names (stub_bcrypt [(token, tokenHash)]) 0)
            tokenHash ''wrongtoken''
            (snd (BcryptCache_set (MemoryCache_methods two_names (stub_bcrypt [(token, tokenHash)]) 0)
                    (Some tokenHash) (Some ''wrongtoken'') (MemoryCache (Some 1) (Some 10)))))
       = Resolved True
   \<and> fst (BcryptCache_compare (RedisCache_methods (fake_redis []) (stub_bcrypt [(token, tokenHash)]))
            tokenHash ''wrongtoken''
            (snd (BcryptCache_set (RedisCache_methods (fake_redis []) (stub_bcrypt [(token, tokenHash)]))
                    (Some tokenHash) (Some ''wrongtoken'') (RedisCache Map.empty None None))))
       = Resolved True"
  by (simp add: core_defs memory_defs redis_defs fake_redis_def stub_bcrypt_def md5_token
      md5_wrongtoken)

section \<open>A miss is settled by bcrypt\<close>

text \<open>
  Claim C2, as amended. When \<open>get(h)\<close> finds no cached value (a miss, or a lookup that
  failed), the promise of \<open>compare(h, t)\<close> is that of \<open>bcrypt.compare(t, h)\<close> with the Redis
  backend, and with the memory backend when \<open>h\<close> is not 32 characters long. With the memory
  backend and 32 characters it is \<open>md5(t) === h\<close>.
\<close>

theorem miss_compares_with_bcrypt:
  "(\<forall>v st1. BcryptCache_get (RedisCache_methods C bc) h sr = (Resolved v, st1) \<longrightarrow> \<not> truthy v \<longrightarrow>
       fst (BcryptCache_compare (RedisCache_methods C bc) h t sr) = bcrypt_compare bc t (JStr h))
   \<and> (\<forall>v st1. BcryptCache_get (MemoryCache_methods L bc now) h sm = (Resolved v, st1) \<longrightarrow> \<not> truthy v \<longrightarrow>
       fst (BcryptCache_compare (MemoryCache_methods L bc now) h t sm) =
         (if length h = 32 then Resolved (md5 t = h) else bcrypt_compare bc t (JStr h)))"
proof (intro conjI allI impI)
  fix v st1
  assume "BcryptCache_get (RedisCache_methods C bc) h sr = (Resolved v, st1)" and "\<not> truthy v"
  then show "fst (BcryptCache_compare (RedisCache_methods C bc) h t sr) = bcrypt_compare bc t (JStr h)"
    using compare_outcome [of "RedisCache_methods C bc" h sr v st1 t] by (simp add: redis_compare)
next
  fix v st1
  assume "BcryptCache_get (MemoryCache_methods L bc now) h sm = (Resolved v, st1)" and "\<not> truthy v"
  then show "fst (BcryptCache_compare (MemoryCache_methods L bc now) h t sm) =
         (if length h = 32 then Resolved (md5 t = h) else bcrypt_compare bc t (JStr h))"
    using compare_outcome [of "MemoryCache_methods L bc now" h sm v st1 t]
    by (simp add: memory_compare_digest_length memory_compare_not_digest_length)
qed

text \<open>
  The tests "should verify a key if lookup fails" (Redis, the read rejected) and "should
  not verify a key that is not in the cache" (memory, an empty cache).
\<close>

theorem miss_compares_with_bcrypt_witness:
  "BcryptCache_get (RedisCache_methods (fake_redis [GET]) (stub_bcrypt [(token, tokenHash)])) tokenHash
       (RedisCache Map.empty None None)
     = (Resolved JUndefined,
        emit (Warn ''Failed to get data from the cache'' (Some ''Connection closed''))
          (RedisCache Map.empty None None))
   \<and> \<not> truthy JUndefined
   \<and> fst (BcryptCache_compare (RedisCache_methods (fake_redis [GET]) (stub_bcrypt [(token, tokenHash)]))
            tokenHash token (RedisCache Map.empty None None)) = Resolved True
   \<and> bcrypt_compare (stub_bcrypt [(token, tokenHash)]) token (JStr tokenHash) = Resolved True
   \<and> BcryptCache_get (MemoryCache_methods two_names (stub_bcrypt [(token, tokenHash)]) 0) tokenHash
         (MemoryCache (Some 1) (Some 10))
       = (Resolved JUndefined, MemoryCache (Some 1) (Some 10))
   \<and> length tokenHash \<noteq> 32
   \<and> fst (BcryptCache_compare (MemoryCache_methods two_names (stub_bcrypt [(token, tokenHash)]) 0)
            tokenHash ''wrongtoken'' (MemoryCache (Some 1) (Some 10))) = Resolved False
   \<and> bcrypt_compare (stub_bcrypt [(token, tokenHash)]) ''wrongtoken'' (JStr tokenHash) = Resolved False"
proof -
  let ?bc = "stub_bcrypt [(token, tokenHash)]"
  let ?sr = "RedisCache (Map.empty :: fake_store) None None"
  let ?sm = "MemoryCache (Some 1) (Some 10)"
  have gr: "BcryptCache_get (RedisCache_methods (fake_redis [GET]) ?bc) tokenHash ?sr
              = (Resolved JUndefined,
                 emit (Warn ''Failed to get data from the cache'' (Some ''Connection closed'')) ?sr)"
    by (simp add: core_defs redis_defs fake_redis_def)
  have gm: "BcryptCache_get (MemoryCache_methods two_names ?bc 0) tokenHash ?sm = (Resolved JUndefined, ?sm)"
    by (simp add: core_defs memory_defs)
  have f: "\<not> truthy JUndefined" by simp
  note th = miss_compares_with_bcrypt [where C = "fake_redis [GET]" and bc = ?bc and h = tokenHash
      and sr = ?sr and L = two_names and now = 0 and sm = ?sm]
  have r: "fst (BcryptCache_compare (RedisCache_methods (fake_redis [GET]) ?bc) tokenHash token ?sr)
             = bcrypt_compare ?bc token (JStr tokenHash)"
    using th [of token] gr f by blast
  have m: "fst (BcryptCache_compare (MemoryCache_methods two_names ?bc 0) tokenHash ''wrongtoken'' ?sm)
             = (if length tokenHash = 32 then Resolved (md5 ''wrongtoken'' = tokenHash)
                else bcrypt_compare ?bc ''wrongtoken'' (JStr tokenHash))"
    using th [of "''wrongtoken''"] gm f by blast
  have b1: "bcrypt_compare ?bc token (JStr tokenHash) = Resolved True"
    by (simp add: stub_bcrypt_def)
  have b2: "bcrypt_compare ?bc ''wrongtoken'' (JStr tokenHash) = Resolved False"
    by (simp add: stub_bcrypt_def)
  have l: "length tokenHash \<noteq> 32" by simp
  from gr gm f r m b1 b2 l show ?thesis by simp
qed

text \<open>
  Claim C2 as stated fails in the memory backend for a hash of 32 characters: the lookup
  finds nothing, bcrypt says \<open>false\<close>, and \<open>compare\<close> says \<open>true\<close>, because \<open>_compare\<close> took
  the hash for a cached digest.
\<close>

theorem miss_compares_with_md5_counterexample:
  "fst (BcryptCache_get (MemoryCache_methods two_names (stub_bcrypt []) 0) ''94a08da1fecbb6e8b46990538c7b50b2''
          (MemoryCache None None)) = Resolved JUndefined
   \<and> bcrypt_compare (stub_bcrypt []) token (JStr ''94a08da1fecbb6e8b46990538c7b50b2'') = Resolved False
   \<and> fst (BcryptCache_compare (MemoryCache_methods two_names (stub_bcrypt []) 0)
            ''94a08da1fecbb6e8b46990538c7b50b2'' token (MemoryCache None None)) = Resolved True"
  by (simp add: core_defs memory_defs stub_bcrypt_def md5_token)

section \<open>A lookup that fails is a miss\<close>

text \<open>
  Claim C7. If the backend's \<open>_get\<close> rejects, \<open>get(h)\<close> emits the warning \<open>Failed to get data
  from the cache\<close> with the cause, and is fulfilled with \<open>undefined\<close>: the caller sees no
  error.
\<close>

theorem get_lookup_failure_is_absent:
  assumes "u_get M (md5 h) st = (Rejected e, st')"
  shows "BcryptCache_get M h st =
           (Resolved JUndefined, emit (Warn ''Failed to get data from the cache'' (Some e)) st')"
  using assms by (simp add: BcryptCache_get_def)

theorem get_lookup_failure_is_absent_witness:
  "u_get (RedisCache_methods (fake_redis [GET]) (stub_bcrypt [(token, tokenHash)])) (md5 tokenHash)
      (RedisCache Map.empty None None)
     = (Rejected ''Connection closed'', RedisCache Map.empty None None)
   \<and> BcryptCache_get (RedisCache_methods (fake_redis [GET]) (stub_bcrypt [(token, tokenHash)]))
        tokenHash (RedisCache Map.empty None None)
     = (Resolved JUndefined,
        \<lparr>state = \<lparr>conn = Map.empty, rttl = 600, prefix = ''bcrypt-cache:''\<rparr>,
         emitted = [Warn ''Failed to get data from the cache'' (Some ''Connection closed'')]\<rparr>)"
proof -
  have g: "u_get (RedisCache_methods (fake_redis [GET]) (stub_bcrypt [(token, tokenHash)]))
             (md5 tokenHash) (RedisCache Map.empty None None)
           = (Rejected ''Connection closed'', RedisCache Map.empty None None)"
    by (simp add: redis_defs fake_redis_def)
  from get_lookup_failure_is_absent [OF g] g show ?thesis
    by (simp add: emit_def RedisCache_def)
qed

section \<open>Any falsy lookup is a miss\<close>

text \<open>
  Claim C10. If \<open>_get\<close> resolves to a falsy value \<open>v\<close>, whichever it is, \<open>compare(h, t)\<close> is
  \<open>_compare\<close> on the original hash; when that is \<open>true\<close> it calls \<open>set(h, t)\<close> afterwards
  and is \<open>true\<close>, when it is \<open>false\<close> nothing more happens. The value \<open>v\<close> does not occur on
  the right: \<open>undefined\<close>, \<open>null\<close>, the empty string, \<open>0\<close> and \<open>false\<close> give the same.
\<close>

theorem compare_falsy_is_miss:
  assumes "u_get M (md5 h) st = (Resolved v, st1)" and "\<not> truthy v"
  shows "BcryptCache_compare M h t st =
           (case u_compare M (JStr h) t of
              Rejected e \<Rightarrow> (Rejected e, st1)
            | Resolved r \<Rightarrow>
                if r then (Resolved True, snd (BcryptCache_set M (Some h) (Some t) st1))
                else (Resolved False, st1))"
proof -
  from assms(1) have "BcryptCache_get M h st = (Resolved v, st1)"
    by (simp add: BcryptCache_get_def)
  then show ?thesis using assms(2) by (rule compare_on_miss)
qed

text \<open>
  A memory cache that holds the empty string for \<open>tokenHash\<close>: the read returns it (and
  resets its expiration), bcrypt is asked about the original hash, and the digest of the
  token replaces the empty string.
\<close>

theorem compare_falsy_is_miss_witness:
  "u_get (MemoryCache_methods two_names (stub_bcrypt [(token, tokenHash)]) 100) (md5 tokenHash)
      \<lparr>state = \<lparr>cache = [md5 tokenHash \<mapsto> \<lparr>val = '''', expiration = 500\<rparr>],
                 ttl = 1000, pruneTimer = 10000\<rparr>, emitted = []\<rparr>
     = (Resolved (JStr ''''),
        \<lparr>state = \<lparr>cache = [md5 tokenHash \<mapsto> \<lparr>val = '''', expiration = 1100\<rparr>],
                   ttl = 1000, pruneTimer = 10000\<rparr>, emitted = []\<rparr>)
   \<and> \<not> truthy (JStr '''')
   \<and> BcryptCache_compare (MemoryCache_methods two_names (stub_bcrypt [(token, tokenHash)]) 100) tokenHash token
        \<lparr>state = \<lparr>cache = [md5 tokenHash \<mapsto> \<lparr>val = '''', expiration = 500\<rparr>],
                   ttl = 1000, pruneTimer = 10000\<rparr>, emitted = []\<rparr>
     = (Resolved True,
        \<lparr>state = \<lparr>cache = [md5 tokenHash \<mapsto> \<lparr>val = ''94a08da1fecbb6e8b46990538c7b50b2'',
                                              expiration = 1100\<rparr>],
                   ttl = 1000, pruneTimer = 10000\<rparr>, emitted = []\<rparr>)"
proof -
  let ?M = "MemoryCache_methods two_names (stub_bcrypt [(token, tokenHash)]) 100"
  let ?st = "\<lparr>state = \<lparr>cache = [md5 tokenHash \<mapsto> \<lparr>val = '''', expiration = 500\<rparr>],
                 ttl = 1000, pruneTimer = 10000\<rparr>, emitted = []\<rparr>"
  let ?st1 = "\<lparr>state = \<lparr>cache = [md5 tokenHash \<mapsto> \<lparr>val = '''', expiration = 1100\<rparr>],
                   ttl = 1000, pruneTimer = 10000\<rparr>, emitted = []\<rparr>"
  have g: "u_get ?M (md5 tokenHash) ?st = (Resolved (JStr ''''), ?st1)"
    by (simp add: memory_defs)
  have f: "\<not> truthy (JStr '''')" by simp
  from compare_falsy_is_miss [OF g f, of token] g f show ?thesis
    by (simp add: core_defs memory_defs stub_bcrypt_def md5_token)
qed

section \<open>Which failures the core absorbs\<close>

text \<open>
  \<open>get\<close> and \<open>set\<close> are always fulfilled, whatever \<open>_get\<close>, \<open>_set\<close> and \<open>_hash\<close> do. The
  promise of \<open>compare\<close> is that of its one call of \<open>_compare\<close>, on the cached value if \<open>get\<close>
  found a truthy one and on the original hash otherwise: no rejection of \<open>_get\<close> or \<open>_set\<close>
  reaches the caller. \<open>remove(h)\<close> is \<open>_remove(md5(h))\<close> with nothing behind it: fulfilled
  with \<open>true\<close> by the memory backend, and with the Redis backend fulfilled with \<open>true\<close> when
  the delete command is answered and rejected with the command's error when it is not.
\<close>

lemma core_absorbs_lookup_and_save_failures:
  "(\<exists>v. fst (BcryptCache_get M h st) = Resolved v)
   \<and> (\<exists>v. fst (BcryptCache_set M ho to st) = Resolved v)
   \<and> (\<exists>v. fst (BcryptCache_get M h st) = Resolved v
          \<and> fst (BcryptCache_compare M h t st) = u_compare M (if truthy v then v else JStr h) t)
   \<and> BcryptCache_remove M h st = u_remove M (md5 h) st
   \<and> fst (BcryptCache_remove (MemoryCache_methods L bc now) h sm) = Resolved (JBool True)
   \<and> fst (BcryptCache_remove (RedisCache_methods C bc) h sr) =
       (case fst (delAsync C (prefix (state sr) @ md5 h) (conn (state sr))) of
          Resolved x \<Rightarrow> Resolved (JBool True)
        | Rejected e \<Rightarrow> Rejected e)"
proof (intro conjI)
  show "\<exists>v. fst (BcryptCache_get M h st) = Resolved v"
    by (rule BcryptCache_get_resolves)
  show "\<exists>v. fst (BcryptCache_set M ho to st) = Resolved v"
    by (rule BcryptCache_set_resolves)
  obtain v st1 where g: "BcryptCache_get M h st = (Resolved v, st1)"
    by (rule get_cases)
  from compare_outcome [OF g, of t] g
  show "\<exists>v. fst (BcryptCache_get M h st) = Resolved v
          \<and> fst (BcryptCache_compare M h t st) = u_compare M (if truthy v then v else JStr h) t"
    by auto
  show "BcryptCache_remove M h st = u_remove M (md5 h) st"
    by (simp add: BcryptCache_remove_def)
  show "fst (BcryptCache_remove (MemoryCache_methods L bc now) h sm) = Resolved (JBool True)"
    by (simp add: BcryptCache_remove_def MemoryCache_methods_def memory_remove_digest)
  show "fst (BcryptCache_remove (RedisCache_methods C bc) h sr) =
       (case fst (delAsync C (prefix (state sr) @ md5 h) (conn (state sr))) of
          Resolved x \<Rightarrow> Resolved (JBool True)
        | Rejected e \<Rightarrow> Rejected e)"
    by (simp add: BcryptCache_remove_def RedisCache_methods_def RedisCache_u_remove_def
        split: prod.splits promise.splits)
qed

text \<open>
  Claim C3, at the input where the code departs from it. A Redis client that rejects
  every command with \<open>Connection closed\<close>: \<open>get(tokenHash)\<close> warns and is fulfilled,
  \<open>set(tokenHash, 'token')\<close> warns and is fulfilled, and \<open>remove(tokenHash)\<close>, which has no
  handler where the other two have one, is rejected with the client's error and emits
  nothing.
\<close>

theorem remove_rejects_when_delete_fails:
  "BcryptCache_get
       (RedisCache_methods (fake_redis [GET, SETEX, DEL, EXPIRE]) (stub_bcrypt [(token, tokenHash)]))
       tokenHash (RedisCache Map.empty None None)
     = (Resolved JUndefined,
        \<lparr>state = \<lparr>conn = Map.empty, rttl = 600, prefix = ''bcrypt-cache:''\<rparr>,
         emitted = [Warn ''Failed to get data from the cache'' (Some ''Connection closed'')]\<rparr>)
   \<and> BcryptCache_set
       (RedisCache_methods (fake_redis [GET, SETEX, DEL, EXPIRE]) (stub_bcrypt [(token, tokenHash)]))
       (Some tokenHash) (Some token) (RedisCache Map.empty None None)
     = (Resolved JUndefined,
        \<lparr>state = \<lparr>conn = Map.empty, rttl = 600, prefix = ''bcrypt-cache:''\<rparr>,
         emitted = [Warn ''Failed add hash to the cache'' (Some ''Connection closed'')]\<rparr>)
   \<and> BcryptCache_remove
       (RedisCache_methods (fake_redis [GET, SETEX, DEL, EXPIRE]) (stub_bcrypt [(token, tokenHash)]))
       tokenHash (RedisCache Map.empty None None)
     = (Rejected ''Connection closed'',
        \<lparr>state = \<lparr>conn = Map.empty, rttl = 600, prefix = ''bcrypt-cache:''\<rparr>, emitted = []\<rparr>)"
  by (simp add: core_defs redis_defs fake_redis_def stub_bcrypt_def)

section \<open>An expired entry and the read that finds it\<close>

text \<open>
  \<open>_get\<close> answers \<open>undefined\<close> for an expired entry, but what it removes is the entry
  under \<open>md5(key)\<close>: it calls \<open>this.remove(key)\<close>, the public method, where \<open>_prune\<close> calls
  \<open>this._remove(key)\<close>. Unless the key is its own digest the expired entry stays.
\<close>

lemma expired_get_keeps_entry:
  assumes "cache (state sm) key = Some e" and "expiration e < now" and "md5 key \<noteq> key"
  shows "MemoryCache_u_get L now key sm
           = (Resolved JUndefined, set_cache ((cache (state sm))(md5 key := None)) sm)"
    and "cache (state (snd (MemoryCache_u_get L now key sm))) key = Some e"
  using assms
  by (simp_all add: MemoryCache_u_get_def MemoryCache_remove_def memory_remove_digest
      set_cache_def)

text \<open>
  Claim C5, at the input where the code departs from it. \<open>set('key', 'token')\<close> at time 0
  with a ttl of one second and a prune timer of five; two seconds later \<open>get('key')\<close> is
  \<open>undefined\<close>, and the cache is what it was: the expired entry is still under its key.
  \<open>_prune\<close> at the same moment would have removed it.
\<close>

theorem expired_entry_survives_get:
  "BcryptCache_set (MemoryCache_methods two_names (stub_bcrypt []) 0) (Some ''key'') (Some token)
       (MemoryCache (Some 1) (Some 5))
     = (Resolved (JBool True),
        \<lparr>state = \<lparr>cache = [''3c6e0b8a9c15224a8228b9a98ca1531d''
                               \<mapsto> \<lparr>val = ''94a08da1fecbb6e8b46990538c7b50b2'', expiration = 1000\<rparr>],
                   ttl = 1000, pruneTimer = 5000\<rparr>, emitted = []\<rparr>)
   \<and> BcryptCache_get (MemoryCache_methods two_names (stub_bcrypt []) 2000) ''key''
        \<lparr>state = \<lparr>cache = [''3c6e0b8a9c15224a8228b9a98ca1531d''
                               \<mapsto> \<lparr>val = ''94a08da1fecbb6e8b46990538c7b50b2'', expiration = 1000\<rparr>],
                   ttl = 1000, pruneTimer = 5000\<rparr>, emitted = []\<rparr>
     = (Resolved JUndefined,
        \<lparr>state = \<lparr>cache = [''3c6e0b8a9c15224a8228b9a98ca1531d''
                               \<mapsto> \<lparr>val = ''94a08da1fecbb6e8b46990538c7b50b2'', expiration = 1000\<rparr>],
                   ttl = 1000, pruneTimer = 5000\<rparr>, emitted = []\<rparr>)
   \<and> cache (state (MemoryCache_u_prune 2000
        \<lparr>state = \<lparr>cache = [''3c6e0b8a9c15224a8228b9a98ca1531d''
                               \<mapsto> \<lparr>val = ''94a08da1fecbb6e8b46990538c7b50b2'', expiration = 1000\<rparr>],
                   ttl = 1000, pruneTimer = 5000\<rparr>, emitted = []\<rparr>))
        ''3c6e0b8a9c15224a8228b9a98ca1531d'' = None"
  by (simp add: core_defs memory_defs md5_key md5_token md5_md5_key fun_upd_idem)

section \<open>Sliding expiration\<close>

text \<open>
  Claim C6, as amended. In the memory backend a read that finds an entry which is not
  expired returns its value and sets its expiration to \<open>now + ttl\<close>; a write stores the
  entry with expiration \<open>now + ttl\<close>; \<open>ttl\<close> is the option in milliseconds and no call
  changes it. In the Redis backend a read that is answered with a truthy value sends
  \<open>expire(prefix + key, ttl)\<close>: when that is answered the read returns the value and the
  store is as the refresh left it, and when it is rejected the read still returns the
  value, with a warning, and the store is as the rejected command left it. A write is
  \<open>setex(prefix + key, ttl, value)\<close>.
\<close>

theorem sliding_expiration:
  "(\<forall>e. cache (state sm) key = Some e \<longrightarrow> \<not> expiration e < now \<longrightarrow>
        fst (MemoryCache_u_get L now key sm) = Resolved (JStr (val e))
        \<and> cache (state (snd (MemoryCache_u_get L now key sm))) key
            = Some (e\<lparr>expiration := now + ttl (state sm)\<rparr>))
   \<and> cache (state (snd (MemoryCache_u_set now key x sm))) key
       = Some \<lparr>val = x, expiration = now + ttl (state sm)\<rparr>
   \<and> ttl (state (snd (MemoryCache_u_get L now key sm))) = ttl (state sm)
   \<and> ttl (state (snd (MemoryCache_u_set now key x sm))) = ttl (state sm)
   \<and> ttl (state (MemoryCache (Some secs) p)) = secs * 1000
   \<and> (\<forall>v r1. getAsync C (prefix (state sr) @ key) (conn (state sr)) = (Resolved v, r1) \<longrightarrow> truthy v \<longrightarrow>
         (\<forall>y r2. expireAsync C (prefix (state sr) @ key) (rttl (state sr)) r1 = (Resolved y, r2) \<longrightarrow>
            RedisCache_u_get C key sr = (Resolved v, set_conn r2 sr))
         \<and> (\<forall>err r2. expireAsync C (prefix (state sr) @ key) (rttl (state sr)) r1 = (Rejected err, r2) \<longrightarrow>
            RedisCache_u_get C key sr
              = (Resolved v, emit (Warn ''Error setting expiration'' (Some err)) (set_conn r2 sr))))
   \<and> (\<forall>y r1. setexAsync C (prefix (state sr) @ key) (rttl (state sr)) x (conn (state sr)) = (Resolved y, r1) \<longrightarrow>
         RedisCache_u_set C key x sr = (Resolved (JBool (truthy y)), set_conn r1 sr))
   \<and> rttl (state (RedisCache r (Some secs) q)) = secs"
proof (intro conjI allI impI)
  fix e
  assume "cache (state sm) key = Some e" and "\<not> expiration e < now"
  then show "fst (MemoryCache_u_get L now key sm) = Resolved (JStr (val e))"
    and "cache (state (snd (MemoryCache_u_get L now key sm))) key
            = Some (e\<lparr>expiration := now + ttl (state sm)\<rparr>)"
    by (simp_all add: MemoryCache_u_get_def set_cache_def)
next
  show "cache (state (snd (MemoryCache_u_set now key x sm))) key
       = Some \<lparr>val = x, expiration = now + ttl (state sm)\<rparr>"
    by (simp add: MemoryCache_u_set_def set_cache_def)
  show "ttl (state (snd (MemoryCache_u_get L now key sm))) = ttl (state sm)"
    by (simp add: MemoryCache_u_get_def MemoryCache_remove_def memory_remove_digest
        set_cache_def split: option.splits)
  show "ttl (state (snd (MemoryCache_u_set now key x sm))) = ttl (state sm)"
    by (simp add: MemoryCache_u_set_def set_cache_def)
  show "ttl (state (MemoryCache (Some secs) p)) = secs * 1000"
    by (simp add: MemoryCache_def)
  show "rttl (state (RedisCache r (Some secs) q)) = secs"
    by (simp add: RedisCache_def)
next
  fix v r1 y r2
  assume "getAsync C (prefix (state sr) @ key) (conn (state sr)) = (Resolved v, r1)" and "truthy v"
    and "expireAsync C (prefix (state sr) @ key) (rttl (state sr)) r1 = (Resolved y, r2)"
  then show "RedisCache_u_get C key sr = (Resolved v, set_conn r2 sr)"
    by (simp add: RedisCache_u_get_def)
next
  fix v r1 err r2
  assume "getAsync C (prefix (state sr) @ key) (conn (state sr)) = (Resolved v, r1)" and "truthy v"
    and "expireAsync C (prefix (state sr) @ key) (rttl (state sr)) r1 = (Rejected err, r2)"
  then show "RedisCache_u_get C key sr
              = (Resolved v, emit (Warn ''Error setting expiration'' (Some err)) (set_conn r2 sr))"
    by (simp add: RedisCache_u_get_def)
next
  fix y r1
  assume "setexAsync C (prefix (state sr) @ key) (rttl (state sr)) x (conn (state sr)) = (Resolved y, r1)"
  then show "RedisCache_u_set C key x sr = (Resolved (JBool (truthy y)), set_conn r1 sr)"
    by (simp add: RedisCache_u_set_def)
qed

text \<open>
  The test "should reset expiration on get": an entry written at 0 with a ttl of one
  second and read at 900 expires at 1900. For Redis, an entry with three seconds to live is
  read: it has 600 afterwards if the refresh is answered, and a write gives 600.
\<close>

theorem sliding_expiration_witness:
  "cache (state \<lparr>state = \<lparr>cache = [md5 ''key'' \<mapsto> \<lparr>val = md5 token, expiration = 1000\<rparr>],
                          ttl = 1000, pruneTimer = 5000\<rparr>, emitted = []\<rparr>) (md5 ''key'')
     = Some \<lparr>val = md5 token, expiration = 1000\<rparr>
   \<and> \<not> expiration \<lparr>val = md5 token, expiration = 1000\<rparr> < 900
   \<and> fst (MemoryCache_u_get two_names 900 (md5 ''key'')
            \<lparr>state = \<lparr>cache = [md5 ''key'' \<mapsto> \<lparr>val = md5 token, expiration = 1000\<rparr>],
                       ttl = 1000, pruneTimer = 5000\<rparr>, emitted = []\<rparr>) = Resolved (JStr (md5 token))
   \<and> cache (state (snd (MemoryCache_u_get two_names 900 (md5 ''key'')
            \<lparr>state = \<lparr>cache = [md5 ''key'' \<mapsto> \<lparr>val = md5 token, expiration = 1000\<rparr>],
                       ttl = 1000, pruneTimer = 5000\<rparr>, emitted = []\<rparr>))) (md5 ''key'')
       = Some \<lparr>val = md5 token, expiration = 1900\<rparr>
   \<and> getAsync (fake_redis []) (''bcrypt-cache:'' @ md5 ''key'')
        [''bcrypt-cache:'' @ md5 ''key'' \<mapsto> (''$2a$04$token'', 3)]
       = (Resolved (JStr ''$2a$04$token''), [''bcrypt-cache:'' @ md5 ''key'' \<mapsto> (''$2a$04$token'', 3)])
   \<and> truthy (JStr ''$2a$04$token'')
   \<and> expireAsync (fake_redis []) (''bcrypt-cache:'' @ md5 ''key'') 600
        [''bcrypt-cache:'' @ md5 ''key'' \<mapsto> (''$2a$04$token'', 3)]
       = (Resolved (JNum 1), [''bcrypt-cache:'' @ md5 ''key'' \<mapsto> (''$2a$04$token'', 600)])
   \<and> RedisCache_u_get (fake_redis []) (md5 ''key'')
        \<lparr>state = \<lparr>conn = [''bcrypt-cache:'' @ md5 ''key'' \<mapsto> (''$2a$04$token'', 3)],
                   rttl = 600, prefix = ''bcrypt-cache:''\<rparr>, emitted = []\<rparr>
       = (Resolved (JStr ''$2a$04$token''),
          \<lparr>state = \<lparr>conn = [''bcrypt-cache:'' @ md5 ''key'' \<mapsto> (''$2a$04$token'', 600)],
                     rttl = 600, prefix = ''bcrypt-cache:''\<rparr>, emitted = []\<rparr>)
   \<and> expireAsync (fake_redis [EXPIRE]) (''bcrypt-cache:'' @ md5 ''key'') 600
        [''bcrypt-cache:'' @ md5 ''key'' \<mapsto> (''$2a$04$token'', 3)]
       = (Rejected ''Connection closed'', [''bcrypt-cache:'' @ md5 ''key'' \<mapsto> (''$2a$04$token'', 3)])
   \<and> RedisCache_u_get (fake_redis [EXPIRE]) (md5 ''key'')
        \<lparr>state = \<lparr>conn = [''bcrypt-cache:'' @ md5 ''key'' \<mapsto> (''$2a$04$token'', 3)],
                   rttl = 600, prefix = ''bcrypt-cache:''\<rparr>, emitted = []\<rparr>
       = (Resolved (JStr ''$2a$04$token''),
          \<lparr>state = \<lparr>conn = [''bcrypt-cache:'' @ md5 ''key'' \<mapsto> (''$2a$04$token'', 3)],
                     rttl = 600, prefix = ''bcrypt-cache:''\<rparr>,
           emitted = [Warn ''Error setting expiration'' (Some ''Connection closed'')]\<rparr>)
   \<and> setexAsync (fake_redis []) (''bcrypt-cache:'' @ md5 ''key'') 600 ''$2a$04$token'' Map.empty
       = (Resolved (JStr ''OK''), [''bcrypt-cache:'' @ md5 ''key'' \<mapsto> (''$2a$04$token'', 600)])
   \<and> RedisCache_u_set (fake_redis []) (md5 ''key'') ''$2a$04$token'' (RedisCache Map.empty None None)
       = (Resolved (JBool True),
          \<lparr>state = \<lparr>conn = [''bcrypt-cache:'' @ md5 ''key'' \<mapsto> (''$2a$04$token'', 600)],
                     rttl = 600, prefix = ''bcrypt-cache:''\<rparr>, emitted = []\<rparr>)"
proof -
  let ?k = "md5 ''key''"
  let ?pk = "''bcrypt-cache:'' @ md5 ''key''"
  let ?e = "\<lparr>val = md5 token, expiration = 1000\<rparr>"
  let ?sm = "\<lparr>state = \<lparr>cache = [?k \<mapsto> ?e], ttl = 1000, pruneTimer = 5000\<rparr>, emitted = []\<rparr>"
  let ?r3 = "[?pk \<mapsto> (''$2a$04$token'', 3::int)]"
  let ?r600 = "[?pk \<mapsto> (''$2a$04$token'', 600::int)]"
  let ?sr = "\<lparr>state = \<lparr>conn = ?r3, rttl = 600, prefix = ''bcrypt-cache:''\<rparr>, emitted = []\<rparr>"
  let ?sr' = "\<lparr>state = \<lparr>conn = ?r600, rttl = 600, prefix = ''bcrypt-cache:''\<rparr>, emitted = []\<rparr>"
  let ?s0 = "RedisCache (Map.empty :: fake_store) None None"
  have m1: "cache (state ?sm) ?k = Some ?e" by simp
  have m2: "\<not> expiration ?e < 900" by simp
  have g: "getAsync (fake_redis []) (prefix (state ?sr) @ ?k) (conn (state ?sr))
             = (Resolved (JStr ''$2a$04$token''), ?r3)"
    by (simp add: fake_redis_def)
  have g': "getAsync (fake_redis [EXPIRE]) (prefix (state ?sr) @ ?k) (conn (state ?sr))
             = (Resolved (JStr ''$2a$04$token''), ?r3)"
    by (simp add: fake_redis_def)
  have t: "truthy (JStr ''$2a$04$token'')" by simp
  have x: "expireAsync (fake_redis []) (prefix (state ?sr) @ ?k) (rttl (state ?sr)) ?r3
             = (Resolved (JNum 1), ?r600)"
    by (simp add: fake_redis_def)
  have x': "expireAsync (fake_redis [EXPIRE]) (prefix (state ?sr) @ ?k) (rttl (state ?sr)) ?r3
             = (Rejected ''Connection closed'', ?r3)"
    by (simp add: fake_redis_def)
  have s: "setexAsync (fake_redis []) (prefix (state ?s0) @ ?k) (rttl (state ?s0)) ''$2a$04$token''
             (conn (state ?s0)) = (Resolved (JStr ''OK''), ?r600)"
    by (simp add: fake_redis_def RedisCache_def)
  note th1 = sliding_expiration [where L = two_names and sm = ?sm and key = ?k and now = 900
      and C = "fake_redis []" and sr = ?sr and x = "''$2a$04$token''" and secs = 1 and p = None
      and r = "Map.empty :: fake_store" and q = None]
  note th2 = sliding_expiration [where L = two_names and sm = ?sm and key = ?k and now = 900
      and C = "fake_redis [EXPIRE]" and sr = ?sr and x = "''$2a$04$token''" and secs = 1 and p = None
      and r = "Map.empty :: fake_store" and q = None]
  note th3 = sliding_expiration [where L = two_names and sm = ?sm and key = ?k and now = 900
      and C = "fake_redis []" and sr = ?s0 and x = "''$2a$04$token''" and secs = 1 and p = None
      and r = "Map.empty :: fake_store" and q = None]
  from th1 m1 m2 have a: "fst (MemoryCache_u_get two_names 900 ?k ?sm) = Resolved (JStr (val ?e))
      \<and> cache (state (snd (MemoryCache_u_get two_names 900 ?k ?sm))) ?k
          = Some (?e\<lparr>expiration := 900 + ttl (state ?sm)\<rparr>)"
    by blast
  from th1 g t x have b: "RedisCache_u_get (fake_redis []) ?k ?sr
      = (Resolved (JStr ''$2a$04$token''), set_conn ?r600 ?sr)"
    by blast
  from th2 g' t x' have c: "RedisCache_u_get (fake_redis [EXPIRE]) ?k ?sr
      = (Resolved (JStr ''$2a$04$token''),
         emit (Warn ''Error setting expiration'' (Some ''Connection closed'')) (set_conn ?r3 ?sr))"
    by blast
  from th3 s have d: "RedisCache_u_set (fake_redis []) ?k ''$2a$04$token'' ?s0
      = (Resolved (JBool (truthy (JStr ''OK''))), set_conn ?r600 ?s0)"
    by blast
  have eqs: "set_conn ?r600 ?sr = ?sr'" "set_conn ?r600 ?s0 = ?sr'"
    "emit (Warn ''Error setting expiration'' (Some ''Connection closed'')) (set_conn ?r3 ?sr)
       = ?sr\<lparr>emitted := [Warn ''Error setting expiration'' (Some ''Connection closed'')]\<rparr>"
    by (simp_all add: set_conn_def emit_def RedisCache_def)
  from m1 m2 a b c d g t x x' s show ?thesis
    unfolding eqs by (simp add: RedisCache_def)
qed

text \<open>
  Claim C6 as stated fails in the Redis backend when the refresh is rejected: the read
  succeeds and finds the entry, and the entry keeps the three seconds it had.
\<close>

theorem read_without_refresh_counterexample:
  "RedisCache_u_get (fake_redis [EXPIRE]) ''3c6e0b8a9c15224a8228b9a98ca1531d''
      \<lparr>state = \<lparr>conn = [''bcrypt-cache:3c6e0b8a9c15224a8228b9a98ca1531d'' \<mapsto> (''$2a$04$token'', 3)],
                 rttl = 600, prefix = ''bcrypt-cache:''\<rparr>, emitted = []\<rparr>
     = (Resolved (JStr ''$2a$04$token''),
        \<lparr>state = \<lparr>conn = [''bcrypt-cache:3c6e0b8a9c15224a8228b9a98ca1531d'' \<mapsto> (''$2a$04$token'', 3)],
                   rttl = 600, prefix = ''bcrypt-cache:''\<rparr>,
         emitted = [Warn ''Error setting expiration'' (Some ''Connection closed'')]\<rparr>)"
  by (simp add: redis_defs fake_redis_def emit_def)

section \<open>A save that fails\<close>

text \<open>
  When \<open>_hash\<close> or \<open>_set\<close> rejects, \<open>set\<close> emits the warning and is fulfilled with what the
  \<open>catch\<close> handler returns, which is \<open>undefined\<close>.
\<close>

lemma set_failure:
  "u_hash M t = Rejected e \<Longrightarrow>
   BcryptCache_set M (Some h) (Some t) st
     = (Resolved JUndefined, emit (Warn ''Failed add hash to the cache'' (Some e)) st)"
  "u_hash M t = Resolved x \<Longrightarrow> u_set M (md5 h) x st = (Rejected e, st') \<Longrightarrow>
   BcryptCache_set M (Some h) (Some t) st
     = (Resolved JUndefined, emit (Warn ''Failed add hash to the cache'' (Some e)) st')"
  by (simp_all add: BcryptCache_set_def)

text \<open>
  Claim C8, at the input where the code departs from it. The test "should verify if
  saving key to the cache fails" makes \<open>_set\<close> reject with \<open>Connection closed\<close>: \<open>set\<close> is
  fulfilled, the warning is emitted, and the value is \<open>undefined\<close>, not a boolean. The same
  when the hashing rejects. The other failure of \<open>set\<close>, a missing parameter, gives \<open>false\<close>.
\<close>

theorem failed_save_resolves_undefined:
  "BcryptCache_set (RedisCache_methods (fake_redis [SETEX]) (stub_bcrypt [(token, tokenHash)]))
       (Some tokenHash) (Some token) (RedisCache Map.empty None None)
     = (Resolved JUndefined,
        \<lparr>state = \<lparr>conn = Map.empty, rttl = 600, prefix = ''bcrypt-cache:''\<rparr>,
         emitted = [Warn ''Failed add hash to the cache'' (Some ''Connection closed'')]\<rparr>)
   \<and> BcryptCache_set
        (RedisCache_methods (fake_redis [])
           ((stub_bcrypt [(token, tokenHash)])\<lparr>bcrypt_hash := \<lambda>v rounds. Rejected ''Invalid salt''\<rparr>))
        (Some tokenHash) (Some token) (RedisCache Map.empty None None)
     = (Resolved JUndefined,
        \<lparr>state = \<lparr>conn = Map.empty, rttl = 600, prefix = ''bcrypt-cache:''\<rparr>,
         emitted = [Warn ''Failed add hash to the cache'' (Some ''Invalid salt'')]\<rparr>)
   \<and> BcryptCache_set (RedisCache_methods (fake_redis [SETEX]) (stub_bcrypt [(token, tokenHash)]))
        None (Some token) (RedisCache Map.empty None None)
     = (Resolved (JBool False),
        \<lparr>state = \<lparr>conn = Map.empty, rttl = 600, prefix = ''bcrypt-cache:''\<rparr>,
         emitted = [Warn ''Missing parameter(s)'' None]\<rparr>)"
  by (simp add: core_defs redis_defs fake_redis_def stub_bcrypt_def)

section \<open>Removing twice\<close>




end
